theory Spec2Isabelle
  imports Complex_Main
begin

section \<open>Data model of \<open>main.py\<close>\<close>

text \<open>
  Python exceptions the modelled code can raise are values of \<open>py_error\<close>; a fallible
  function returns \<open>py_error + 'a\<close>, with \<open>Inl\<close> for the exception.  Python floats are
  idealised as HOL reals, Python's unbounded integers are \<open>int\<close>, and the result of
  \<open>len\<close> is a \<open>nat\<close>.
\<close>

datatype py_error = ZeroDivisionError | IndexError | AssertionError

text \<open>The command line namespace \<open>args\<close> (the fields the modelled code reads).\<close>

record args =
  bs :: int
  epochs :: int
  learning_rate_weights :: real
  learning_rate_biases :: real
  wd :: real
  args_lr :: real
  warm :: bool
  world_size :: int
  rank :: int

text \<open>
  A tensor is the list of its elements; the number of dimensions is kept with the
  parameter.  A parameter carries its value, its rank and an optional gradient
  (\<open>p.grad\<close> is \<open>None\<close> when absent).
\<close>

type_synonym tensor = "real list"

record param =
  data :: tensor
  ndim :: nat
  grad :: "tensor option"

text \<open>
  Parameters are shared objects: the model, the parameter groups and the optimizer state
  all refer to the same tensors.  They live in a store that maps an address to the
  parameter held there; a group holds addresses, and \<open>self.state[p]['mu']\<close> is a map
  from the address of \<open>p\<close> to the momentum buffer, undefined until the buffer is
  created.
\<close>

type_synonym addr = nat
type_synonym store = "addr \<Rightarrow> param"

record group =
  params :: "addr list"
  lr :: real
  weight_decay :: real
  momentum :: real
  eta :: real
  weight_decay_filter :: bool
  lars_adaptation_filter :: bool

record optimizer =
  param_groups :: "group list"
  state :: "addr \<rightharpoonup> tensor"

section \<open>The learning-rate schedule: \<open>adjust_learning_rate\<close>\<close>

text \<open>
  Lines 23 to 33 of \<open>adjust_learning_rate\<close>: the value of the local variable \<open>lr\<close>.
  The argument \<open>n\<close> is \<open>len(loader)\<close>.  Both divisions are Python float divisions, which
  raise \<open>ZeroDivisionError\<close> on a zero divisor.
\<close>

definition schedule_lr :: "args \<Rightarrow> nat \<Rightarrow> int \<Rightarrow> py_error + real" where
  "schedule_lr a n step =
     (let max_steps = epochs a * int n;
          warmup_steps = 10 * int n;
          base_lr = real_of_int (bs a) / 256
      in if step < warmup_steps then
           (if warmup_steps = 0 then Inl ZeroDivisionError
            else Inr (base_lr * real_of_int step / real_of_int warmup_steps))
         else
           (let step' = step - warmup_steps;
                max_steps' = max_steps - warmup_steps
            in if max_steps' = 0 then Inl ZeroDivisionError
               else
                 (let q = 0.5 * (1 + cos (pi * real_of_int step' / real_of_int max_steps'));
                      end_lr = base_lr * 0.001
                  in Inr (base_lr * q + end_lr * (1 - q)))))"

text \<open>\<open>optimizer.param_groups[i]['lr'] = v\<close>; an index out of range raises.\<close>

definition set_group_lr :: "group list \<Rightarrow> nat \<Rightarrow> real \<Rightarrow> py_error + group list" where
  "set_group_lr gs i v =
     (if i < length gs then Inr (gs[i := (gs ! i)\<lparr>lr := v\<rparr>]) else Inl IndexError)"

definition adjust_learning_rate ::
  "args \<Rightarrow> optimizer \<Rightarrow> nat \<Rightarrow> int \<Rightarrow> py_error + optimizer" where
  "adjust_learning_rate a opt n step =
     (case schedule_lr a n step of
        Inl e \<Rightarrow> Inl e
      | Inr l \<Rightarrow>
          (case set_group_lr (param_groups opt) 0 (l * learning_rate_weights a) of
             Inl e \<Rightarrow> Inl e
           | Inr gs1 \<Rightarrow>
               (case set_group_lr gs1 1 (l * learning_rate_biases a) of
                  Inl e \<Rightarrow> Inl e
                | Inr gs2 \<Rightarrow> Inr (opt\<lparr>param_groups := gs2\<rparr>))))"

section \<open>The optimizer: class \<open>LARS\<close>\<close>

subsection \<open>Tensor operations used by \<open>step\<close>\<close>

text \<open>
  \<open>x.add(y, alpha=c)\<close> is \<open>x + c * y\<close> elementwise, \<open>x.mul(q)\<close> with a scalar \<open>q\<close> scales
  every element, \<open>torch.norm\<close> is the 2-norm of the flattened tensor, and
  \<open>torch.zeros_like\<close> has the shape of its argument.  The in-place variants \<open>add_\<close> and
  \<open>mul_\<close> compute the same values; the model writes the result back where the source
  mutates.  A gradient and a momentum buffer have the shape of their parameter, so the
  lists that \<open>t_add\<close> combines have the same length wherever the source adds tensors.
\<close>

definition t_add :: "tensor \<Rightarrow> tensor \<Rightarrow> real \<Rightarrow> tensor" where
  "t_add x y c = map2 (\<lambda>u v. u + c * v) x y"

definition t_mul :: "tensor \<Rightarrow> real \<Rightarrow> tensor" where
  "t_mul x q = map (\<lambda>u. u * q) x"

definition t_norm :: "tensor \<Rightarrow> real" where
  "t_norm x = sqrt (sum_list (map (\<lambda>u. u * u) x))"

definition zeros_like :: "tensor \<Rightarrow> tensor" where
  "zeros_like x = replicate (length x) 0"

text \<open>
  \<open>torch.where(c, x, y)\<close> on zero-dimensional tensors.  Both \<open>x\<close> and \<open>y\<close> are computed
  before the selection; a tensor division never raises.
\<close>

definition t_where :: "bool \<Rightarrow> real \<Rightarrow> real \<Rightarrow> real" where
  "t_where c x y = (if c then x else y)"

subsection \<open>\<open>LARS.__init__\<close>, \<open>exclude_bias_and_norm\<close> and \<open>step\<close>\<close>

text \<open>
  The constructor receives the parameter groups as a list of address lists and gives
  every group the defaults; the optimizer state starts empty.
\<close>

definition LARS_init ::
  "addr list list \<Rightarrow> real \<Rightarrow> real \<Rightarrow> real \<Rightarrow> real \<Rightarrow> bool \<Rightarrow> bool \<Rightarrow> optimizer" where
  "LARS_init pss l w m e wdf laf =
     \<lparr>param_groups =
        map (\<lambda>ps. \<lparr>params = ps, lr = l, weight_decay = w, momentum = m, eta = e,
                    weight_decay_filter = wdf, lars_adaptation_filter = laf\<rparr>) pss,
      state = Map.empty\<rparr>"

definition exclude_bias_and_norm :: "param \<Rightarrow> bool" where
  "exclude_bias_and_norm p = (ndim p = 1)"

text \<open>Line 60 and 61: the gradient after the weight-decay stage.\<close>

definition decay_stage :: "group \<Rightarrow> param \<Rightarrow> tensor \<Rightarrow> tensor" where
  "decay_stage g p dp =
     (if \<not> weight_decay_filter g \<or> \<not> exclude_bias_and_norm p
      then t_add dp (data p) (weight_decay g) else dp)"

text \<open>Lines 64 to 69: the trust ratio \<open>q\<close>.\<close>

definition trust_ratio :: "group \<Rightarrow> param \<Rightarrow> tensor \<Rightarrow> real" where
  "trust_ratio g p dp =
     (let param_norm = t_norm (data p);
          update_norm = t_norm dp;
          one = 1
      in t_where (param_norm > 0)
           (t_where (update_norm > 0) (eta g * param_norm / update_norm) one) one)"

text \<open>Lines 63 to 70: the gradient after the adaptation stage.\<close>

definition adapt_stage :: "group \<Rightarrow> param \<Rightarrow> tensor \<Rightarrow> tensor" where
  "adapt_stage g p dp =
     (if \<not> lars_adaptation_filter g \<or> \<not> exclude_bias_and_norm p
      then t_mul dp (trust_ratio g p dp) else dp)"

text \<open>
  Lines 72 to 76: the momentum buffer after \<open>mu.mul_(momentum).add_(dp)\<close>, created as
  zeros when the state has none for this parameter.
\<close>

definition momentum_stage :: "group \<Rightarrow> param \<Rightarrow> tensor option \<Rightarrow> tensor \<Rightarrow> tensor" where
  "momentum_stage g p old dp =
     (let mu = (case old of None \<Rightarrow> zeros_like (data p) | Some m \<Rightarrow> m)
      in t_add (t_mul mu (momentum g)) dp 1)"

text \<open>
  The body of the inner loop, for the parameter at address \<open>a\<close> of group \<open>g\<close>, on the
  optimizer state and the store.
\<close>

definition step_param ::
  "group \<Rightarrow> addr \<Rightarrow> (addr \<rightharpoonup> tensor) \<times> store \<Rightarrow> (addr \<rightharpoonup> tensor) \<times> store" where
  "step_param g a sh =
     (let st = fst sh; h = snd sh; p = h a
      in case grad p of
           None \<Rightarrow> (st, h)
         | Some dp0 \<Rightarrow>
             (let dp1 = decay_stage g p dp0;
                  dp2 = adapt_stage g p dp1;
                  mu = momentum_stage g p (st a) dp2
              in (st(a \<mapsto> mu), h(a := p\<lparr>data := t_add (data p) mu (- lr g)\<rparr>))))"

definition step_group ::
  "group \<Rightarrow> (addr \<rightharpoonup> tensor) \<times> store \<Rightarrow> (addr \<rightharpoonup> tensor) \<times> store" where
  "step_group g sh = fold (step_param g) (params g) sh"

definition LARS_step :: "optimizer \<Rightarrow> store \<Rightarrow> optimizer \<times> store" where
  "LARS_step opt h =
     (let sh = fold step_group (param_groups opt) (state opt, h)
      in (opt\<lparr>state := fst sh\<rparr>, snd sh))"

subsection \<open>\<open>zero_grad\<close>, inherited from \<open>torch.optim.Optimizer\<close>\<close>

text \<open>
  For every parameter of every group whose gradient is present, the gradient is set to
  \<open>None\<close> when \<open>set_to_none\<close> holds and zeroed in place otherwise.  The default of
  \<open>set_to_none\<close> depends on the library version, so it is a parameter.
\<close>

definition zero_grad_param :: "bool \<Rightarrow> addr \<Rightarrow> store \<Rightarrow> store" where
  "zero_grad_param stn a h =
     (case grad (h a) of
        None \<Rightarrow> h
      | Some g \<Rightarrow>
          (if stn then h(a := (h a)\<lparr>grad := None\<rparr>)
           else h(a := (h a)\<lparr>grad := Some (zeros_like g)\<rparr>)))"

definition zero_grad :: "bool \<Rightarrow> optimizer \<Rightarrow> store \<Rightarrow> store" where
  "zero_grad stn opt h =
     fold (\<lambda>g. fold (zero_grad_param stn) (params g)) (param_groups opt) h"

section \<open>The worker loop: \<open>main_worker\<close>\<close>

subsection \<open>State and external collaborators\<close>

text \<open>The dictionary \<open>log\<close> of the coordinating worker: four lists, one entry per epoch.\<close>

record epoch_log =
  train_loss :: "real list"
  train_acc :: "real list"
  test_loss :: "real list"
  test_acc :: "real list"

text \<open>
  The calls of one loop iteration that leave the function, recorded in the order in
  which they are made.
\<close>

datatype event = Schedule | Forward | Loss | ZeroGrad | Backward | OptimizerStep

text \<open>
  A data loader has a fixed length; \<open>batch ld e i\<close> is the \<open>i\<close>-th batch it yields after
  \<open>sampler.set_epoch(e)\<close>.
\<close>

record 'b loader =
  len :: nat
  batch :: "nat \<Rightarrow> nat \<Rightarrow> 'b"

text \<open>
  The collaborators of the loop that are not code of this repository: the model's
  parameter list, the two loaders, the forward pass with the criterion (the value of
  \<open>loss.item()\<close> and the number of correct predictions, as functions of the parameter
  store and the batch), the batch's label count, \<open>loss.backward()\<close> (which leaves the
  synchronised gradients in the store), the library scheduler's \<open>step\<close>, and the
  library's \<open>set_to_none\<close> default.
\<close>

record 'b env =
  model_parameters :: "addr list"
  train_loader :: "'b loader"
  test_loader :: "'b loader"
  loss_item :: "store \<Rightarrow> 'b \<Rightarrow> real"
  n_correct :: "store \<Rightarrow> 'b \<Rightarrow> nat"
  label_size :: "'b \<Rightarrow> nat"
  backward :: "store \<Rightarrow> 'b \<Rightarrow> store"
  scheduler_step :: "optimizer \<Rightarrow> optimizer"
  set_to_none :: bool

text \<open>
  The mutable state of one worker, and the per-epoch accumulators \<open>train_loss\<close> (or
  \<open>test_loss\<close>), \<open>correct\<close>, \<open>total\<close> and \<open>batch_count\<close>.  Only the worker of rank 0 has a
  \<open>log\<close>; on the other workers \<open>the_log\<close> stays empty and is never read.
\<close>

record wstate =
  opt :: optimizer
  heap :: store
  the_log :: epoch_log
  trace :: "event list"

record meters =
  m_loss :: real
  m_correct :: nat
  m_total :: nat
  m_batch_count :: nat

text \<open>A loop over a list whose body may raise: the first exception ends the loop.\<close>

fun fold_err :: "('s \<Rightarrow> 'x \<Rightarrow> py_error + 's) \<Rightarrow> 's \<Rightarrow> 'x list \<Rightarrow> py_error + 's" where
  "fold_err f s [] = Inr s"
| "fold_err f s (x # xs) = (case f s x of Inl e \<Rightarrow> Inl e | Inr s' \<Rightarrow> fold_err f s' xs)"

subsection \<open>Parameter groups (lines 109 to 116)\<close>

fun split_params :: "store \<Rightarrow> addr list \<Rightarrow> addr list \<times> addr list \<Rightarrow> addr list \<times> addr list" where
  "split_params h [] wb = wb"
| "split_params h (p # ps) wb =
     (if ndim (h p) = 1 then split_params h ps (fst wb, snd wb @ [p])
      else split_params h ps (fst wb @ [p], snd wb))"

definition build_parameters :: "store \<Rightarrow> addr list \<Rightarrow> addr list list" where
  "build_parameters h ps =
     (let wb = split_params h ps ([], []);
          param_weights = fst wb;
          param_biases = snd wb
      in [param_weights, param_biases])"

subsection \<open>One training iteration (lines 172 to 191)\<close>

text \<open>
  Each call of the iteration is a transformer of the worker state that also records its
  event.  The forward pass and the criterion leave the parameters alone; their values are
  read from the store as it is before the gradients are touched.
\<close>

definition w_schedule :: "'b env \<Rightarrow> args \<Rightarrow> nat \<Rightarrow> wstate \<Rightarrow> py_error + wstate" where
  "w_schedule env a step s =
     (case (if warm a
            then adjust_learning_rate a (opt s) (len (train_loader env)) (int step)
            else Inr (scheduler_step env (opt s))) of
        Inl e \<Rightarrow> Inl e
      | Inr o1 \<Rightarrow> Inr (s\<lparr>opt := o1, trace := trace s @ [Schedule]\<rparr>))"

definition w_forward :: "wstate \<Rightarrow> wstate" where
  "w_forward s = s\<lparr>trace := trace s @ [Forward]\<rparr>"

definition w_criterion :: "wstate \<Rightarrow> wstate" where
  "w_criterion s = s\<lparr>trace := trace s @ [Loss]\<rparr>"

definition w_zero_grad :: "'b env \<Rightarrow> wstate \<Rightarrow> wstate" where
  "w_zero_grad env s =
     s\<lparr>heap := zero_grad (set_to_none env) (opt s) (heap s), trace := trace s @ [ZeroGrad]\<rparr>"

definition w_backward :: "'b env \<Rightarrow> 'b \<Rightarrow> wstate \<Rightarrow> wstate" where
  "w_backward env b s = s\<lparr>heap := backward env (heap s) b, trace := trace s @ [Backward]\<rparr>"

definition w_step :: "wstate \<Rightarrow> wstate" where
  "w_step s =
     (let oh = LARS_step (opt s) (heap s)
      in s\<lparr>opt := fst oh, heap := snd oh, trace := trace s @ [OptimizerStep]\<rparr>)"

text \<open>The accumulation of lines 188 to 191 (and 211 to 214 in the evaluation loop).\<close>

definition accumulate :: "'b env \<Rightarrow> store \<Rightarrow> 'b \<Rightarrow> meters \<Rightarrow> meters" where
  "accumulate env h b m =
     m\<lparr>m_loss := m_loss m + loss_item env h b,
       m_total := m_total m + label_size env b,
       m_correct := m_correct m + n_correct env h b\<rparr>"

definition train_step ::
  "'b env \<Rightarrow> args \<Rightarrow> wstate \<times> meters \<Rightarrow> nat \<times> 'b \<Rightarrow> py_error + wstate \<times> meters" where
  "train_step env a sm sb =
     (let s = fst sm; m = snd sm; step = fst sb; b = snd sb
      in case w_schedule env a step s of
           Inl e \<Rightarrow> Inl e
         | Inr s1 \<Rightarrow>
             (let m1 = m\<lparr>m_batch_count := step\<rparr>;
                  s2 = w_forward s1;
                  s3 = w_criterion s2;
                  s4 = w_zero_grad env s3;
                  s5 = w_backward env b s4;
                  s6 = w_step s5;
                  m2 = (if rank a = 0 then accumulate env (heap s3) b m1 else m1)
              in Inr (s6, m2)))"

subsection \<open>One evaluation iteration (lines 204 to 214)\<close>

definition eval_step :: "'b env \<Rightarrow> nat \<times> 'b \<Rightarrow> wstate \<times> meters \<Rightarrow> wstate \<times> meters" where
  "eval_step env sb sm =
     (let s = fst sm; m = snd sm; step = fst sb; b = snd sb;
          m1 = m\<lparr>m_batch_count := step\<rparr>;
          s1 = w_forward s;
          s2 = w_criterion s1
      in (s2, accumulate env (heap s2) b m1))"

subsection \<open>One epoch (lines 166 to 219) and the whole worker\<close>

definition meters0 :: meters where
  "meters0 = \<lparr>m_loss = 0, m_correct = 0, m_total = 0, m_batch_count = 0\<rparr>"

text \<open>
  Lines 194 and 195.  The divisor \<open>batch_count + 1\<close> is never zero; \<open>100. * correct / total\<close>
  is a float division and raises when \<open>total\<close> is zero.
\<close>

definition log_train :: "meters \<Rightarrow> wstate \<Rightarrow> py_error + wstate" where
  "log_train m s =
     (let l = the_log s;
          l1 = l\<lparr>train_loss := train_loss l @ [m_loss m / real (m_batch_count m + 1)]\<rparr>
      in if m_total m = 0 then Inl ZeroDivisionError
         else Inr (s\<lparr>the_log :=
                l1\<lparr>train_acc := train_acc l1 @ [100 * real (m_correct m) / real (m_total m)]\<rparr>\<rparr>))"

text \<open>Lines 216 and 217.\<close>

definition log_test :: "meters \<Rightarrow> wstate \<Rightarrow> py_error + wstate" where
  "log_test m s =
     (let l = the_log s;
          l1 = l\<lparr>test_loss := test_loss l @ [m_loss m / real (m_batch_count m + 1)]\<rparr>
      in if m_total m = 0 then Inl ZeroDivisionError
         else Inr (s\<lparr>the_log :=
                l1\<lparr>test_acc := test_acc l1 @ [100 * real (m_correct m) / real (m_total m)]\<rparr>\<rparr>))"

text \<open>The batches of a loader in epoch \<open>e\<close>, numbered from \<open>start\<close> as \<open>enumerate\<close> does.\<close>

definition enumerate_loader :: "'b loader \<Rightarrow> nat \<Rightarrow> nat \<Rightarrow> (nat \<times> 'b) list" where
  "enumerate_loader ld e start = enumerate start (map (batch ld e) [0..<len ld])"

definition evaluate :: "'b env \<Rightarrow> nat \<Rightarrow> wstate \<Rightarrow> py_error + wstate" where
  "evaluate env epoch s =
     (let sm = fold (eval_step env) (enumerate_loader (test_loader env) epoch 0) (s, meters0)
      in log_test (snd sm) (fst sm))"

definition run_epoch :: "'b env \<Rightarrow> args \<Rightarrow> wstate \<Rightarrow> nat \<Rightarrow> py_error + wstate" where
  "run_epoch env a s epoch =
     (let ld = train_loader env
      in case fold_err (train_step env a) (s, meters0)
                (enumerate_loader ld epoch (epoch * len ld)) of
           Inl e \<Rightarrow> Inl e
         | Inr sm \<Rightarrow>
             (if rank a = 0 then
                (case log_train (snd sm) (fst sm) of
                   Inl e \<Rightarrow> Inl e
                 | Inr s1 \<Rightarrow> evaluate env epoch s1)
              else Inr (fst sm)))"

text \<open>
  \<open>main_worker\<close>, from the initial parameter store.  The assertion of line 150 comes
  before the loop over the epochs; \<open>%\<close> raises on a zero divisor.  The log of rank 0 is
  written out after the last epoch, so the result of a run that raised has no log.
\<close>

definition main_worker :: "'b env \<Rightarrow> int \<Rightarrow> args \<Rightarrow> store \<Rightarrow> py_error + wstate" where
  "main_worker env gpu a0 h =
     (let a = a0\<lparr>rank := rank a0 + gpu\<rparr>;
          log0 = \<lparr>train_loss = [], train_acc = [], test_loss = [], test_acc = []\<rparr>;
          parameters = build_parameters h (model_parameters env);
          optimizer = LARS_init parameters (args_lr a) (wd a) 0.9 0.001 True True;
          s0 = \<lparr>opt = optimizer, heap = h, the_log = log0, trace = []\<rparr>
      in if world_size a = 0 then Inl ZeroDivisionError
         else if bs a mod world_size a \<noteq> 0 then Inl AssertionError
         else fold_err (run_epoch env a) s0 [0..<nat (epochs a)])"

section \<open>Concrete inputs\<close>

text \<open>
  A command line with the parser's default multipliers and weight decay, batch size 256,
  20 epochs, warmup on and two workers; and the same with 10 and with 9 epochs.
\<close>

definition ex_args :: args where
  "ex_args = \<lparr>bs = 256, epochs = 20, learning_rate_weights = 0.2,
     learning_rate_biases = 0.0048, wd = 0.0005, args_lr = 0.01, warm = True,
     world_size = 2, rank = 0\<rparr>"

definition ex_args10 :: args where
  "ex_args10 = ex_args\<lparr>epochs := 10\<rparr>"

definition ex_args9 :: args where
  "ex_args9 = ex_args\<lparr>epochs := 9\<rparr>"

text \<open>
  An optimizer over two groups, the parameter at address 0 in the first and the one at
  address 1 in the second, and the same optimizer after the schedule has written the
  rates of step 5 of a loader of length 1.
\<close>

definition ex_opt :: optimizer where
  "ex_opt = LARS_init [[0], [1]] 0.01 0.0005 0.9 0.001 True True"

definition ex_opt_5 :: optimizer where
  "ex_opt_5 = ex_opt\<lparr>param_groups :=
     [(param_groups ex_opt ! 0)\<lparr>lr := 0.1\<rparr>, (param_groups ex_opt ! 1)\<lparr>lr := 0.0024\<rparr>]\<rparr>"

text \<open>
  A store with a weight-like parameter of rank 2 at address 0, whose gradient is zero, and
  a bias-like parameter of rank 1 at address 1.
\<close>

definition ex_store :: store where
  "ex_store = (\<lambda>a. \<lparr>data = [], ndim = 1, grad = None\<rparr>)
     (0 := \<lparr>data = [3, 4], ndim = 2, grad = Some [0, 0]\<rparr>,
      1 := \<lparr>data = [1, 1], ndim = 1, grad = Some [1, 2]\<rparr>)"



text \<open>
  Collaborators for a run on the store above: loaders of two training batches and one
  evaluation batch, every batch with loss 1, one correct prediction and two labels.
  \<open>backward\<close> accumulates the gradient \<open>[1, 2]\<close> into the bias-like parameter and gives the
  weight-like parameter none; the library scheduler leaves the rates alone, and
  \<open>zero_grad\<close> sets gradients to \<open>None\<close>.
\<close>

definition ex_env :: "nat env" where
  "ex_env = \<lparr>model_parameters = [0, 1],
     train_loader = \<lparr>len = 2, batch = (\<lambda>e i. i)\<rparr>,
     test_loader = \<lparr>len = 1, batch = (\<lambda>e i. i)\<rparr>,
     loss_item = (\<lambda>h b. 1),
     n_correct = (\<lambda>h b. 1),
     label_size = (\<lambda>b. 2),
     backward = (\<lambda>h b. h(1 := (h 1)\<lparr>grad :=
        Some (case grad (h 1) of None \<Rightarrow> [1, 2] | Some g \<Rightarrow> t_add g [1, 2] 1)\<rparr>)),
     scheduler_step = (\<lambda>x. x),
     set_to_none = True\<rparr>"

text \<open>
  Runs on it: two epochs without warmup with batch size 32 on two workers, the same with
  batch size 33, and one epoch with warmup.  \<open>ex_state\<close> is a worker state before the
  first iteration.
\<close>

definition ex_args_run :: args where
  "ex_args_run = ex_args\<lparr>bs := 32, epochs := 2, warm := False\<rparr>"


definition ex_args_warm :: args where
  "ex_args_warm = ex_args\<lparr>bs := 32, epochs := 1\<rparr>"

definition ex_state :: wstate where
  "ex_state = \<lparr>opt = ex_opt, heap = ex_store,
     the_log = \<lparr>train_loss = [], train_acc = [], test_loss = [], test_acc = []\<rparr>,
     trace = []\<rparr>"

section \<open>Properties of the schedule\<close>

lemma schedule_lr_loop_range:
  assumes "0 \<le> step" "step < epochs a * int n"
  shows "\<exists>l. schedule_lr a n step = Inr l"
proof -
  have n: "n \<noteq> 0" using assms by (cases "n = 0") auto
  show ?thesis
  proof (cases "step < 10 * int n")
    case True
    then show ?thesis using n by (simp add: schedule_lr_def Let_def)
  next
    case False
    then have "epochs a * int n - 10 * int n \<noteq> 0" using assms by linarith
    then show ?thesis using False by (simp add: schedule_lr_def Let_def)
  qed
qed

lemma set_group_lr_Inr:
  "set_group_lr gs i v = Inr gs' \<Longrightarrow> i < length gs \<and> gs' = gs[i := (gs ! i)\<lparr>lr := v\<rparr>]"
  by (auto simp: set_group_lr_def split: if_splits)

lemma adjust_learning_rate_Inr:
  assumes "adjust_learning_rate a optim n step = Inr optim'"
  shows "\<exists>l. schedule_lr a n step = Inr l \<and> 2 \<le> length (param_groups optim) \<and>
           optim' = optim\<lparr>param_groups := (param_groups optim)
              [0 := (param_groups optim ! 0)\<lparr>lr := l * learning_rate_weights a\<rparr>,
               1 := (param_groups optim ! 1)\<lparr>lr := l * learning_rate_biases a\<rparr>]\<rparr>"
proof -
  from assms obtain l gs1 gs2 where l: "schedule_lr a n step = Inr l"
    and g1: "set_group_lr (param_groups optim) 0 (l * learning_rate_weights a) = Inr gs1"
    and g2: "set_group_lr gs1 1 (l * learning_rate_biases a) = Inr gs2"
    and o: "optim' = optim\<lparr>param_groups := gs2\<rparr>"
    by (auto simp: adjust_learning_rate_def split: sum.splits)
  from set_group_lr_Inr[OF g1] set_group_lr_Inr[OF g2]
  have "2 \<le> length (param_groups optim)"
    and "gs2 = (param_groups optim)
              [0 := (param_groups optim ! 0)\<lparr>lr := l * learning_rate_weights a\<rparr>,
               1 := (param_groups optim ! 1)\<lparr>lr := l * learning_rate_biases a\<rparr>]"
    by auto
  with l o show ?thesis by blast
qed

lemma adjust_learning_rate_loop_range:
  assumes "0 \<le> step" "step < epochs a * int n" "2 \<le> length (param_groups optim)"
  shows "\<exists>optim'. adjust_learning_rate a optim n step = Inr optim'"
proof -
  from schedule_lr_loop_range[OF assms(1,2)] obtain l where "schedule_lr a n step = Inr l"
    by blast
  with assms(3) show ?thesis
    by (auto simp: adjust_learning_rate_def set_group_lr_def)
qed

text \<open>
  Claim C2, as the code has it.  The cosine branch has no guard on
  \<open>m = total_steps - warmup_steps\<close>: for a step at or past the warmup it raises
  \<open>ZeroDivisionError\<close> when \<open>m = 0\<close>, and otherwise, also for \<open>m < 0\<close>, it returns
  \<open>base_rate * q + end_rate * (1 - q)\<close> with the cosine factor \<open>q\<close> computed from \<open>m\<close>.
  For every step the worker loop passes (\<open>0 \<le> step < total_steps\<close>) that falls in the
  cosine branch, \<open>m\<close> is positive and the function returns a rate.
\<close>

theorem schedule_cosine_branch:
  "(10 * int n \<le> step \<longrightarrow>
      schedule_lr a n step =
        (if epochs a * int n - 10 * int n = 0 then Inl ZeroDivisionError
         else Inr (let base = real_of_int (bs a) / 256;
                       q = 0.5 * (1 + cos (pi * real_of_int (step - 10 * int n)
                                             / real_of_int (epochs a * int n - 10 * int n)))
                   in base * q + base * 0.001 * (1 - q)))) \<and>
   (0 \<le> step \<and> step < epochs a * int n \<and> 10 * int n \<le> step \<longrightarrow>
      0 < epochs a * int n - 10 * int n \<and> (\<exists>l. schedule_lr a n step = Inr l))"
proof (intro conjI impI)
  assume "10 * int n \<le> step"
  then show "schedule_lr a n step =
        (if epochs a * int n - 10 * int n = 0 then Inl ZeroDivisionError
         else Inr (let base = real_of_int (bs a) / 256;
                       q = 0.5 * (1 + cos (pi * real_of_int (step - 10 * int n)
                                             / real_of_int (epochs a * int n - 10 * int n)))
                   in base * q + base * 0.001 * (1 - q)))"
    by (simp add: schedule_lr_def Let_def)
next
  assume "0 \<le> step \<and> step < epochs a * int n \<and> 10 * int n \<le> step"
  then show "0 < epochs a * int n - 10 * int n" by linarith
next
  assume "0 \<le> step \<and> step < epochs a * int n \<and> 10 * int n \<le> step"
  then show "\<exists>l. schedule_lr a n step = Inr l"
    using schedule_lr_loop_range by blast
qed

text \<open>
  With 20 epochs of one batch each, step 10 is the first of the cosine branch: \<open>m = 10\<close>
  and the rate is the base rate 1.
\<close>

theorem schedule_cosine_branch_witness:
  "10 * int 1 \<le> (10::int) \<and> (0::int) \<le> 10 \<and> 10 < epochs ex_args * int 1 \<and>
   0 < epochs ex_args * int 1 - 10 * int 1 \<and>
   schedule_lr ex_args 1 10 = Inr 1"
  using schedule_cosine_branch [of 1 10 ex_args]
  by (simp add: ex_args_def)

text \<open>
  Claim C2 as stated fails.  With 10 epochs of one batch each, \<open>m = 0\<close> and step 10
  raises \<open>ZeroDivisionError\<close>; with 9 epochs, \<open>m = -1\<close> and step 11 returns the end rate
  \<open>0.001\<close>, not the base rate 1.
\<close>

theorem schedule_cosine_guard_counterexample:
  "10 * int 1 \<le> (10::int) \<and> epochs ex_args10 * int 1 - 10 * int 1 \<le> 0 \<and>
   schedule_lr ex_args10 1 10 = Inl ZeroDivisionError \<and>
   schedule_lr ex_args10 1 10 \<noteq> Inr (real_of_int (bs ex_args10) / 256) \<and>
   10 * int 1 \<le> (11::int) \<and> epochs ex_args9 * int 1 - 10 * int 1 \<le> 0 \<and>
   schedule_lr ex_args9 1 11 = Inr (1 / 1000) \<and>
   schedule_lr ex_args9 1 11 \<noteq> Inr (real_of_int (bs ex_args9) / 256)"
  by (simp add: ex_args_def ex_args10_def ex_args9_def schedule_lr_def)

text \<open>
  Claim C6.  Whenever \<open>adjust_learning_rate\<close> returns, the rate it has written to group
  0 is the schedule's output times the weights multiplier and the rate written to group
  1 is the same output times the biases multiplier; and it does return for every step
  of the worker loop when the optimizer has its two groups.
\<close>

theorem adjust_learning_rate_multiplicative:
  "(adjust_learning_rate a optim n step = Inr optim' \<longrightarrow>
      (\<exists>l. schedule_lr a n step = Inr l \<and>
           lr (param_groups optim' ! 0) = l * learning_rate_weights a \<and>
           lr (param_groups optim' ! 1) = l * learning_rate_biases a)) \<and>
   (0 \<le> step \<and> step < epochs a * int n \<and> 2 \<le> length (param_groups optim) \<longrightarrow>
      (\<exists>optim2. adjust_learning_rate a optim n step = Inr optim2))"
proof (intro conjI impI)
  assume r: "adjust_learning_rate a optim n step = Inr optim'"
  then obtain l gs1 gs2 where l: "schedule_lr a n step = Inr l"
    and g1: "set_group_lr (param_groups optim) 0 (l * learning_rate_weights a) = Inr gs1"
    and g2: "set_group_lr gs1 1 (l * learning_rate_biases a) = Inr gs2"
    and o: "optim' = optim\<lparr>param_groups := gs2\<rparr>"
    by (auto simp: adjust_learning_rate_def split: sum.splits)
  from set_group_lr_Inr[OF g1] set_group_lr_Inr[OF g2]
  have "lr (gs2 ! 0) = l * learning_rate_weights a" "lr (gs2 ! 1) = l * learning_rate_biases a"
    by auto
  with l o show "\<exists>l. schedule_lr a n step = Inr l \<and>
           lr (param_groups optim' ! 0) = l * learning_rate_weights a \<and>
           lr (param_groups optim' ! 1) = l * learning_rate_biases a" by simp
next
  assume h: "0 \<le> step \<and> step < epochs a * int n \<and> 2 \<le> length (param_groups optim)"
  then obtain l where l: "schedule_lr a n step = Inr l"
    using schedule_lr_loop_range by blast
  with h show "\<exists>optim2. adjust_learning_rate a optim n step = Inr optim2"
    by (auto simp: adjust_learning_rate_def set_group_lr_def)
qed

text \<open>
  At step 5 of a loader of length 1 the schedule gives \<open>0.5\<close>; the groups receive
  \<open>0.5 * 0.2\<close> and \<open>0.5 * 0.0048\<close>.
\<close>

theorem adjust_learning_rate_multiplicative_witness:
  "adjust_learning_rate ex_args ex_opt 1 5 = Inr ex_opt_5 \<and>
   (0::int) \<le> 5 \<and> 5 < epochs ex_args * int 1 \<and> 2 \<le> length (param_groups ex_opt) \<and>
   schedule_lr ex_args 1 5 = Inr 0.5 \<and>
   lr (param_groups ex_opt_5 ! 0) = 0.5 * learning_rate_weights ex_args \<and>
   lr (param_groups ex_opt_5 ! 1) = 0.5 * learning_rate_biases ex_args"
  using adjust_learning_rate_multiplicative [of ex_args ex_opt 1 5 ex_opt_5]
  by (auto simp: ex_args_def ex_opt_def ex_opt_5_def LARS_init_def adjust_learning_rate_def
      schedule_lr_def set_group_lr_def)

section \<open>Properties of the optimizer\<close>

subsection \<open>The step touches one address at a time\<close>


















subsection \<open>The update rule\<close>



text \<open>
  The bias-like parameter at address 1, gradient \<open>[1, 2]\<close>, no buffer yet: the buffer
  becomes \<open>[1, 2]\<close> and the value \<open>[1 - 0.01 * 1, 1 - 0.01 * 2]\<close>.
\<close>

lemma ex_groups:
  "param_groups ex_opt =
     [\<lparr>params = [0], lr = 0.01, weight_decay = 0.0005, momentum = 0.9, eta = 0.001,
        weight_decay_filter = True, lars_adaptation_filter = True\<rparr>,
      \<lparr>params = [1], lr = 0.01, weight_decay = 0.0005, momentum = 0.9, eta = 0.001,
        weight_decay_filter = True, lars_adaptation_filter = True\<rparr>]"
  by (simp add: ex_opt_def LARS_init_def)


subsection \<open>Norms of the concrete tensors\<close>







subsection \<open>The weight-decay filter\<close>

text \<open>
  Claim C3.  With \<open>weight_decay_filter\<close> enabled, the decay stage returns the gradient of
  a rank-1 parameter as it is, for the group's \<open>weight_decay\<close> and for any other value
  \<open>w\<close> in its place, and the whole update of such a parameter is the same for every \<open>w\<close>;
  for a parameter of rank above 1 it returns the gradient plus \<open>weight_decay * p\<close>.  With the
  filter disabled it returns the gradient plus \<open>weight_decay * p\<close> for every parameter.
\<close>

theorem weight_decay_filter_rule:
  "(weight_decay_filter g \<and> ndim p = 1 \<longrightarrow>
      decay_stage g p dp = dp \<and> decay_stage (g\<lparr>weight_decay := w\<rparr>) p dp = dp) \<and>
   (weight_decay_filter g \<and> 1 < ndim p \<longrightarrow>
      decay_stage g p dp = t_add dp (data p) (weight_decay g)) \<and>
   (\<not> weight_decay_filter g \<longrightarrow>
      decay_stage g p dp = t_add dp (data p) (weight_decay g)) \<and>
   (weight_decay_filter g \<and> ndim (snd sh a) = 1 \<longrightarrow>
      step_param (g\<lparr>weight_decay := w\<rparr>) a sh = step_param g a sh)"
  by (auto simp: decay_stage_def exclude_bias_and_norm_def step_param_def adapt_stage_def
      trust_ratio_def momentum_stage_def Let_def split: option.splits)

text \<open>
  The filtered group 0 leaves the gradient \<open>[1, 2]\<close> of the rank-1 parameter alone, also
  with \<open>weight_decay = 7\<close>, and adds \<open>0.0005 * [3, 4]\<close> to the zero gradient of the rank-2
  parameter; group 1 with the filter switched off adds \<open>0.0005 * [1, 1]\<close> to the gradient of
  the rank-1 parameter.
\<close>

theorem weight_decay_filter_rule_witness:
  "weight_decay_filter (param_groups ex_opt ! 0) \<and> ndim (ex_store 1) = 1 \<and>
   decay_stage (param_groups ex_opt ! 0) (ex_store 1) [1, 2] = [1, 2] \<and>
   decay_stage ((param_groups ex_opt ! 0)\<lparr>weight_decay := 7\<rparr>) (ex_store 1) [1, 2] = [1, 2] \<and>
   ndim (snd (state ex_opt, ex_store) 1) = 1 \<and>
   step_param ((param_groups ex_opt ! 0)\<lparr>weight_decay := 7\<rparr>) 1 (state ex_opt, ex_store)
     = step_param (param_groups ex_opt ! 0) 1 (state ex_opt, ex_store) \<and>
   1 < ndim (ex_store 0) \<and>
   decay_stage (param_groups ex_opt ! 0) (ex_store 0) [0, 0] = [3 / 2000, 1 / 500] \<and>
   \<not> weight_decay_filter ((param_groups ex_opt ! 1)\<lparr>weight_decay_filter := False\<rparr>) \<and>
   decay_stage ((param_groups ex_opt ! 1)\<lparr>weight_decay_filter := False\<rparr>) (ex_store 1) [1, 2]
     = [2001 / 2000, 4001 / 2000]"
  using
    weight_decay_filter_rule [of "param_groups ex_opt ! 0" "ex_store 1" "[1, 2]" 7
      "(state ex_opt, ex_store)" 1]
    weight_decay_filter_rule [of "param_groups ex_opt ! 0" "ex_store 0" "[0, 0]" 7
      "(state ex_opt, ex_store)" 1]
    weight_decay_filter_rule [of "(param_groups ex_opt ! 1)\<lparr>weight_decay_filter := False\<rparr>"
      "ex_store 1" "[1, 2]" 7 "(state ex_opt, ex_store)" 1]
  by (simp add: ex_groups ex_store_def t_add_def)

subsection \<open>The trust ratio\<close>





subsection \<open>Parameters with nothing to update\<close>












section \<open>Properties of the worker loop\<close>

subsection \<open>Startup\<close>



subsection \<open>The order of one training iteration\<close>

lemma train_step_Inr:
  assumes "train_step env a (s, m) (step, b) = Inr (s', m')"
  shows "\<exists>s1. w_schedule env a step s = Inr s1 \<and>
          s' = w_step (w_backward env b (w_zero_grad env (w_criterion (w_forward s1))))"
  using assms by (auto simp: train_step_def Let_def split: sum.splits)

lemma w_schedule_Inr:
  assumes "w_schedule env a step s = Inr s1"
  shows "heap s1 = heap s \<and> trace s1 = trace s @ [Schedule] \<and> the_log s1 = the_log s"
  using assms by (auto simp: w_schedule_def split: sum.splits)

text \<open>
  Claim C7, as the code has it.  A training iteration that returns has made its calls in
  the order: schedule, forward pass, loss, \<open>zero_grad\<close>, \<open>backward\<close>, optimizer \<open>step\<close>.  The
  gradients are cleared before \<open>backward\<close> runs, and the optimizer step works on the store
  that \<open>backward\<close> leaves after the clearing.  The iteration returns whenever warmup is
  off, and with warmup on for every step below \<open>total_steps\<close> when the optimizer has two
  groups.
\<close>

theorem train_step_order:
  "(train_step env a (s, m) (step, b) = Inr (s', m') \<longrightarrow>
      trace s' = trace s @ [Schedule, Forward, Loss, ZeroGrad, Backward, OptimizerStep] \<and>
      (\<exists>s1. w_schedule env a step s = Inr s1 \<and>
            s' = w_step (w_backward env b (w_zero_grad env (w_criterion (w_forward s1)))) \<and>
            heap s' = snd (LARS_step (opt s1)
                        (backward env (zero_grad (set_to_none env) (opt s1) (heap s)) b)))) \<and>
   (\<not> warm a \<longrightarrow> (\<exists>r. train_step env a (s, m) (step, b) = Inr r)) \<and>
   (warm a \<and> int step < epochs a * int (len (train_loader env)) \<and>
    2 \<le> length (param_groups (opt s)) \<longrightarrow>
      (\<exists>r. train_step env a (s, m) (step, b) = Inr r))"
proof (intro conjI impI)
  assume r: "train_step env a (s, m) (step, b) = Inr (s', m')"
  from train_step_Inr[OF r] obtain s1 where s1: "w_schedule env a step s = Inr s1"
    and s': "s' = w_step (w_backward env b (w_zero_grad env (w_criterion (w_forward s1))))"
    by blast
  from w_schedule_Inr[OF s1] have h: "heap s1 = heap s" and t: "trace s1 = trace s @ [Schedule]"
    by auto
  show "trace s' = trace s @ [Schedule, Forward, Loss, ZeroGrad, Backward, OptimizerStep]"
    using s' t by (simp add: w_step_def w_backward_def w_zero_grad_def w_criterion_def
        w_forward_def Let_def)
  have "heap s' = snd (LARS_step (opt s1)
                        (backward env (zero_grad (set_to_none env) (opt s1) (heap s)) b))"
    using s' h by (simp add: w_step_def w_backward_def w_zero_grad_def w_criterion_def
        w_forward_def Let_def)
  with s1 s' show "\<exists>s1. w_schedule env a step s = Inr s1 \<and>
            s' = w_step (w_backward env b (w_zero_grad env (w_criterion (w_forward s1)))) \<and>
            heap s' = snd (LARS_step (opt s1)
                        (backward env (zero_grad (set_to_none env) (opt s1) (heap s)) b))"
    by blast
next
  assume "\<not> warm a"
  then show "\<exists>r. train_step env a (s, m) (step, b) = Inr r"
    by (simp add: train_step_def w_schedule_def Let_def)
next
  assume w: "warm a \<and> int step < epochs a * int (len (train_loader env)) \<and>
    2 \<le> length (param_groups (opt s))"
  then obtain o1 where
    "adjust_learning_rate a (opt s) (len (train_loader env)) (int step) = Inr o1"
    using adjust_learning_rate_loop_range
      [of "int step" a "len (train_loader env)" "opt s"] by auto
  with w show "\<exists>r. train_step env a (s, m) (step, b) = Inr r"
    by (simp add: train_step_def w_schedule_def Let_def)
qed


text \<open>
  The first iteration of a run without warmup, and iteration 5 of a run with warmup.
\<close>

theorem train_step_order_witness:
  "train_step ex_env ex_args_run (ex_state, meters0) (0, 0)
     = Inr (w_step (w_backward ex_env 0 (w_zero_grad ex_env (w_criterion (w_forward
              (ex_state\<lparr>trace := [Schedule]\<rparr>))))),
            \<lparr>m_loss = 1, m_correct = 1, m_total = 2, m_batch_count = 0\<rparr>) \<and>
   \<not> warm ex_args_run \<and>
   trace (w_step (w_backward ex_env 0 (w_zero_grad ex_env (w_criterion (w_forward
              (ex_state\<lparr>trace := [Schedule]\<rparr>))))))
     = [Schedule, Forward, Loss, ZeroGrad, Backward, OptimizerStep] \<and>
   warm ex_args \<and> int 5 < epochs ex_args * int (len (train_loader ex_env)) \<and>
   2 \<le> length (param_groups (opt ex_state)) \<and>
   train_step ex_env ex_args (ex_state, meters0) (5, 1)
     = Inr (w_step (w_backward ex_env 1 (w_zero_grad ex_env (w_criterion (w_forward
              (ex_state\<lparr>opt := ex_opt\<lparr>param_groups :=
                  [(param_groups ex_opt ! 0)\<lparr>lr := 1 / 20\<rparr>,
                   (param_groups ex_opt ! 1)\<lparr>lr := 3 / 2500\<rparr>]\<rparr>,
                trace := [Schedule]\<rparr>))))),
            \<lparr>m_loss = 1, m_correct = 1, m_total = 2, m_batch_count = 5\<rparr>)"
proof -
  let ?s0 = "w_step (w_backward ex_env 0 (w_zero_grad ex_env (w_criterion (w_forward
              (ex_state\<lparr>trace := [Schedule]\<rparr>)))))"
  let ?m0 = "\<lparr>m_loss = 1, m_correct = 1, m_total = 2, m_batch_count = 0\<rparr>"
  let ?s5 = "w_step (w_backward ex_env 1 (w_zero_grad ex_env (w_criterion (w_forward
              (ex_state\<lparr>opt := ex_opt\<lparr>param_groups :=
                  [(param_groups ex_opt ! 0)\<lparr>lr := 1 / 20\<rparr>,
                   (param_groups ex_opt ! 1)\<lparr>lr := 3 / 2500\<rparr>]\<rparr>,
                trace := [Schedule]\<rparr>)))))"
  let ?m5 = "\<lparr>m_loss = 1, m_correct = 1, m_total = 2, m_batch_count = 5\<rparr>"
  have r0: "train_step ex_env ex_args_run (ex_state, meters0) (0, 0) = Inr (?s0, ?m0)"
    by (simp add: train_step_def w_schedule_def ex_args_run_def ex_args_def ex_env_def
        ex_state_def meters0_def accumulate_def w_forward_def w_criterion_def Let_def)
  have nw: "\<not> warm ex_args_run"
    by (simp add: ex_args_run_def ex_args_def)
  have w: "warm ex_args \<and> int 5 < epochs ex_args * int (len (train_loader ex_env)) \<and>
      2 \<le> length (param_groups (opt ex_state))"
    by (simp add: ex_args_def ex_env_def ex_state_def ex_groups)
  have r5: "train_step ex_env ex_args (ex_state, meters0) (5, 1) = Inr (?s5, ?m5)"
    by (simp add: train_step_def w_schedule_def ex_args_def ex_env_def
        ex_state_def meters0_def accumulate_def w_forward_def w_criterion_def Let_def
        adjust_learning_rate_def schedule_lr_def set_group_lr_def ex_groups)
  from train_step_order [of ex_env ex_args_run ex_state meters0 0 0 ?s0 ?m0] r0
  have t0: "trace ?s0 = [Schedule, Forward, Loss, ZeroGrad, Backward, OptimizerStep]"
    by (simp add: ex_state_def)
  from train_step_order [of ex_env ex_args ex_state meters0 5 1 ?s5 ?m5] w
  have "\<exists>r. train_step ex_env ex_args (ex_state, meters0) (5, 1) = Inr r"
    by blast
  with r0 nw t0 w r5 show ?thesis by blast
qed

text \<open>
  Claim C7 as stated fails: in the trace of the first iteration \<open>ZeroGrad\<close> comes before
  \<open>Backward\<close>, and the bias-like parameter moves from \<open>[1, 1]\<close> to \<open>[0.99, 0.98]\<close>.  In the
  order the claim gives (\<open>backward\<close>, then \<open>zero_grad\<close>, then \<open>step\<close>) the optimizer would find no
  gradient and the parameter would stay \<open>[1, 1]\<close>.
\<close>

theorem train_step_order_counterexample:
  "(case train_step ex_env ex_args_run (ex_state, meters0) (0, 0) of
      Inl e \<Rightarrow> [] | Inr r \<Rightarrow> trace (fst r))
     = [Schedule, Forward, Loss, ZeroGrad, Backward, OptimizerStep] \<and>
   (case train_step ex_env ex_args_run (ex_state, meters0) (0, 0) of
      Inl e \<Rightarrow> [] | Inr r \<Rightarrow> data (heap (fst r) 1)) = [99 / 100, 49 / 50] \<and>
   data (heap (w_step (w_zero_grad ex_env (w_backward ex_env 0 (w_criterion (w_forward
              (ex_state\<lparr>trace := [Schedule]\<rparr>)))))) 1) = [1, 1]"
  by (simp add: train_step_def w_schedule_def ex_args_run_def ex_args_def ex_env_def
      ex_state_def meters0_def accumulate_def w_forward_def w_criterion_def w_zero_grad_def
      w_backward_def w_step_def LARS_step_def step_group_def step_param_def
      decay_stage_def adapt_stage_def momentum_stage_def exclude_bias_and_norm_def
      zero_grad_def zero_grad_param_def ex_groups ex_opt_def LARS_init_def ex_store_def
      t_add_def t_mul_def zeros_like_def Let_def)


subsection \<open>Parameter groups\<close>

lemma split_params_filter:
  "split_params h ps wb =
     (fst wb @ filter (\<lambda>p. ndim (h p) \<noteq> 1) ps, snd wb @ filter (\<lambda>p. ndim (h p) = 1) ps)"
  by (induction ps arbitrary: wb) simp_all

lemma build_parameters_filter:
  "build_parameters h ps =
     [filter (\<lambda>p. ndim (h p) \<noteq> 1) ps, filter (\<lambda>p. ndim (h p) = 1) ps]"
  by (simp add: build_parameters_def split_params_filter Let_def)


text \<open>
  The model yields every parameter once, so no address occurs twice in the groups.
\<close>

lemma build_parameters_distinct:
  "distinct ps \<Longrightarrow> distinct (concat (build_parameters h ps))"
  by (auto simp: build_parameters_filter)

lemma map_params_set_lr:
  "i < length gs \<Longrightarrow> map params (gs[i := (gs ! i)\<lparr>lr := v\<rparr>]) = map params gs"
  by (simp add: map_update list_update_same_conv)

lemma adjust_learning_rate_params:
  assumes "adjust_learning_rate a optim n step = Inr optim'"
  shows "map params (param_groups optim') = map params (param_groups optim)"
proof -
  from assms obtain l gs1 gs2 where
    g1: "set_group_lr (param_groups optim) 0 (l * learning_rate_weights a) = Inr gs1"
    and g2: "set_group_lr gs1 1 (l * learning_rate_biases a) = Inr gs2"
    and o: "optim' = optim\<lparr>param_groups := gs2\<rparr>"
    by (auto simp: adjust_learning_rate_def split: sum.splits)
  from set_group_lr_Inr[OF g1] have "map params gs1 = map params (param_groups optim)"
    by (simp add: map_params_set_lr)
  moreover from set_group_lr_Inr[OF g2] have "map params gs2 = map params gs1"
    by (simp add: map_params_set_lr)
  ultimately show ?thesis using o by simp
qed

lemma LARS_step_groups: "param_groups (fst (LARS_step optim h)) = param_groups optim"
  by (simp add: LARS_step_def Let_def)

lemma LARS_init_params: "map params (param_groups (LARS_init pss l w m e wdf laf)) = pss"
  by (simp add: LARS_init_def comp_def)

lemma fold_err_preserves:
  assumes "\<And>s x s'. f s x = Inr s' \<Longrightarrow> Q s' = Q s"
    and "fold_err f s xs = Inr s'"
  shows "Q s' = Q s"
  using assms(2)
proof (induction xs arbitrary: s)
  case Nil
  then show ?case by simp
next
  case (Cons x xs)
  then obtain s1 where s1: "f s x = Inr s1" and r: "fold_err f s1 xs = Inr s'"
    by (auto split: sum.splits)
  from Cons.IH[OF r] assms(1)[OF s1] show ?case by simp
qed

lemma train_step_groups:
  assumes "warm a" "train_step env a sm sb = Inr sm'"
  shows "map params (param_groups (opt (fst sm'))) = map params (param_groups (opt (fst sm)))"
proof -
  from assms(2) obtain s1 where s1: "w_schedule env a (fst sb) (fst sm) = Inr s1"
    and s': "fst sm' = w_step (w_backward env (snd sb) (w_zero_grad env
                (w_criterion (w_forward s1))))"
    by (auto simp: train_step_def Let_def split: sum.splits)
  from s1 assms(1) obtain o1 where
    o1: "adjust_learning_rate a (opt (fst sm)) (len (train_loader env)) (int (fst sb)) = Inr o1"
    and "opt s1 = o1"
    by (auto simp: w_schedule_def split: sum.splits)
  with adjust_learning_rate_params[OF o1]
  have "map params (param_groups (opt s1)) = map params (param_groups (opt (fst sm)))"
    by simp
  with s' show ?thesis
    by (simp add: w_step_def w_backward_def w_zero_grad_def w_criterion_def w_forward_def
        Let_def LARS_step_groups)
qed

lemma fold_eval_step_opt: "opt (fst (fold (eval_step env) xs sm)) = opt (fst sm)"
  by (induction xs arbitrary: sm)
     (simp_all add: eval_step_def w_criterion_def w_forward_def Let_def)

lemma log_train_opt: "log_train m s = Inr s' \<Longrightarrow> opt s' = opt s"
  by (auto simp: log_train_def Let_def split: if_splits)

lemma log_test_opt: "log_test m s = Inr s' \<Longrightarrow> opt s' = opt s"
  by (auto simp: log_test_def Let_def split: if_splits)

lemma evaluate_opt: "evaluate env epoch s = Inr s' \<Longrightarrow> opt s' = opt s"
  using log_test_opt fold_eval_step_opt[of env _ "(s, meters0)"]
  by (fastforce simp: evaluate_def Let_def)

lemma run_epoch_groups:
  assumes "warm a" "run_epoch env a s epoch = Inr s'"
  shows "map params (param_groups (opt s')) = map params (param_groups (opt s))"
proof -
  from assms(2) obtain sm where
    f: "fold_err (train_step env a) (s, meters0)
          (enumerate_loader (train_loader env) epoch (epoch * len (train_loader env))) = Inr sm"
    and r: "(if rank a = 0 then
                (case log_train (snd sm) (fst sm) of Inl e \<Rightarrow> Inl e
                 | Inr s1 \<Rightarrow> evaluate env epoch s1)
              else Inr (fst sm)) = Inr s'"
    by (auto simp: run_epoch_def Let_def split: sum.splits)
  have 1: "map params (param_groups (opt (fst sm))) = map params (param_groups (opt s))"
    using fold_err_preserves[of "train_step env a" "\<lambda>sm. map params (param_groups (opt (fst sm)))",
        OF train_step_groups[OF assms(1)] f] by simp
  have 2: "opt s' = opt (fst sm)"
    using r log_train_opt evaluate_opt by (fastforce split: if_splits sum.splits)
  from 1 2 show ?thesis by simp
qed

lemma main_worker_groups:
  assumes "warm a" "main_worker env gpu a h = Inr s"
  shows "map params (param_groups (opt s)) = build_parameters h (model_parameters env)"
proof -
  let ?a = "a\<lparr>rank := rank a + gpu\<rparr>"
  let ?s0 = "\<lparr>opt = LARS_init (build_parameters h (model_parameters env)) (args_lr ?a) (wd ?a)
                 0.9 0.001 True True,
             heap = h,
             the_log = \<lparr>train_loss = [], train_acc = [], test_loss = [], test_acc = []\<rparr>,
             trace = []\<rparr>"
  from assms(2) have f: "fold_err (run_epoch env ?a) ?s0 [0..<nat (epochs ?a)] = Inr s"
    by (simp add: main_worker_def Let_def split: if_splits)
  have w: "warm ?a" using assms(1) by simp
  from fold_err_preserves[of "run_epoch env ?a" "\<lambda>s. map params (param_groups (opt s))",
      OF run_epoch_groups[OF w] f]
  show ?thesis by (simp add: LARS_init_params)
qed


text \<open>
  Claim C10.  The groups are built as a list of exactly two: at index 0 the parameters
  whose rank is not 1, at index 1 those of rank 1, each in the model's order.  Every
  parameter is in exactly one of them, and when no parameter has rank 0 (as in the
  model the worker builds) index 0 holds exactly the parameters of rank above 1.  The
  optimizer is constructed over these two lists; \<open>adjust_learning_rate\<close> leaves the
  membership alone and writes the schedule output times the weights multiplier to index
  0 and times the biases multiplier to index 1; and after a whole run with warmup the
  optimizer still has the same two lists at the same indices.
\<close>

theorem parameter_groups_order:
  "build_parameters h ps =
     [filter (\<lambda>p. ndim (h p) \<noteq> 1) ps, filter (\<lambda>p. ndim (h p) = 1) ps] \<and>
   (\<forall>p\<in>set ps. (p \<in> set (build_parameters h ps ! 0)) = (ndim (h p) \<noteq> 1) \<and>
                (p \<in> set (build_parameters h ps ! 1)) = (ndim (h p) = 1)) \<and>
   set (build_parameters h ps ! 0) \<union> set (build_parameters h ps ! 1) = set ps \<and>
   set (build_parameters h ps ! 0) \<inter> set (build_parameters h ps ! 1) = {} \<and>
   length (build_parameters h ps ! 0) + length (build_parameters h ps ! 1) = length ps \<and>
   ((\<forall>p\<in>set ps. 1 \<le> ndim (h p)) \<longrightarrow>
      (\<forall>p\<in>set ps. (p \<in> set (build_parameters h ps ! 0)) = (1 < ndim (h p)))) \<and>
   map params (param_groups (LARS_init (build_parameters h ps) l0 w0 m0 e0 wdf laf))
     = build_parameters h ps \<and>
   (map params (param_groups optim) = build_parameters h ps \<and>
    adjust_learning_rate a optim n step = Inr optim' \<longrightarrow>
      map params (param_groups optim') = build_parameters h ps \<and>
      (\<exists>l. schedule_lr a n step = Inr l \<and>
           lr (param_groups optim' ! 0) = l * learning_rate_weights a \<and>
           params (param_groups optim' ! 0) = filter (\<lambda>p. ndim (h p) \<noteq> 1) ps \<and>
           lr (param_groups optim' ! 1) = l * learning_rate_biases a \<and>
           params (param_groups optim' ! 1) = filter (\<lambda>p. ndim (h p) = 1) ps)) \<and>
   (warm aw \<and> main_worker env gpu aw h = Inr s \<longrightarrow>
      map params (param_groups (opt s)) = build_parameters h (model_parameters env))"
proof -
  let ?bp = "build_parameters h ps"
  have bp: "?bp = [filter (\<lambda>p. ndim (h p) \<noteq> 1) ps, filter (\<lambda>p. ndim (h p) = 1) ps]"
    by (rule build_parameters_filter)
  have mem: "\<forall>p\<in>set ps. (p \<in> set (?bp ! 0)) = (ndim (h p) \<noteq> 1) \<and>
                (p \<in> set (?bp ! 1)) = (ndim (h p) = 1)"
    by (simp add: bp)
  have un: "set (?bp ! 0) \<union> set (?bp ! 1) = set ps"
    by (auto simp: bp)
  have dj: "set (?bp ! 0) \<inter> set (?bp ! 1) = {}"
    by (auto simp: bp)
  have len: "length (?bp ! 0) + length (?bp ! 1) = length ps"
    using sum_length_filter_compl[of "\<lambda>p. ndim (h p) = 1" ps] by (simp add: bp)
  have r1: "(\<forall>p\<in>set ps. 1 \<le> ndim (h p)) \<longrightarrow>
      (\<forall>p\<in>set ps. (p \<in> set (?bp ! 0)) = (1 < ndim (h p)))"
    by (auto simp: bp)
  have ini: "map params (param_groups (LARS_init ?bp l0 w0 m0 e0 wdf laf)) = ?bp"
    by (rule LARS_init_params)
  have adj: "map params (param_groups optim) = ?bp \<and>
    adjust_learning_rate a optim n step = Inr optim' \<longrightarrow>
      map params (param_groups optim') = ?bp \<and>
      (\<exists>l. schedule_lr a n step = Inr l \<and>
           lr (param_groups optim' ! 0) = l * learning_rate_weights a \<and>
           params (param_groups optim' ! 0) = filter (\<lambda>p. ndim (h p) \<noteq> 1) ps \<and>
           lr (param_groups optim' ! 1) = l * learning_rate_biases a \<and>
           params (param_groups optim' ! 1) = filter (\<lambda>p. ndim (h p) = 1) ps)"
  proof (intro impI, elim conjE)
    assume m: "map params (param_groups optim) = ?bp"
      and r: "adjust_learning_rate a optim n step = Inr optim'"
    from adjust_learning_rate_params[OF r] m
    have m': "map params (param_groups optim') = ?bp" by simp
    from adjust_learning_rate_Inr[OF r] obtain l where l: "schedule_lr a n step = Inr l"
      and n2: "2 \<le> length (param_groups optim)"
      and o: "optim' = optim\<lparr>param_groups := (param_groups optim)
              [0 := (param_groups optim ! 0)\<lparr>lr := l * learning_rate_weights a\<rparr>,
               1 := (param_groups optim ! 1)\<lparr>lr := l * learning_rate_biases a\<rparr>]\<rparr>"
      by blast
    from n2 have n01: "0 < length (param_groups optim)" "1 < length (param_groups optim)"
      by linarith+
    from o n01 have lrs: "lr (param_groups optim' ! 0) = l * learning_rate_weights a"
      "lr (param_groups optim' ! 1) = l * learning_rate_biases a"
      by (simp_all add: nth_list_update)
    from m' have len': "length (param_groups optim') = 2"
      using bp by (metis length_map length_Cons list.size(3) One_nat_def Suc_1)
    from m' len' have "params (param_groups optim' ! 0) = ?bp ! 0"
      "params (param_groups optim' ! 1) = ?bp ! 1"
      by (metis nth_map zero_less_numeral, metis nth_map one_less_numeral_iff semiring_norm(76))
    with bp have ps: "params (param_groups optim' ! 0) = filter (\<lambda>p. ndim (h p) \<noteq> 1) ps"
      "params (param_groups optim' ! 1) = filter (\<lambda>p. ndim (h p) = 1) ps" by simp_all
    from m' l lrs ps show "map params (param_groups optim') = ?bp \<and>
      (\<exists>l. schedule_lr a n step = Inr l \<and>
           lr (param_groups optim' ! 0) = l * learning_rate_weights a \<and>
           params (param_groups optim' ! 0) = filter (\<lambda>p. ndim (h p) \<noteq> 1) ps \<and>
           lr (param_groups optim' ! 1) = l * learning_rate_biases a \<and>
           params (param_groups optim' ! 1) = filter (\<lambda>p. ndim (h p) = 1) ps)" by blast
  qed
  have run: "warm aw \<and> main_worker env gpu aw h = Inr s \<longrightarrow>
      map params (param_groups (opt s)) = build_parameters h (model_parameters env)"
    using main_worker_groups by blast
  from bp mem un dj len r1 ini adj run show ?thesis by blast
qed


lemma upt2: "[0..<2] = [0, 1]"
  by (simp add: upt_conv_Cons numeral_2_eq_2)

lemma main_worker_warm_run:
  "main_worker ex_env 0 ex_args_warm ex_store
     = Inr (projr (main_worker ex_env 0 ex_args_warm ex_store))"
  by (simp add: main_worker_def build_parameters_def LARS_init_def run_epoch_def
      enumerate_loader_def train_step_def w_schedule_def w_forward_def w_criterion_def
      w_zero_grad_def w_backward_def w_step_def LARS_step_def step_group_def step_param_def
      decay_stage_def adapt_stage_def momentum_stage_def exclude_bias_and_norm_def
      zero_grad_def zero_grad_param_def accumulate_def eval_step_def evaluate_def
      log_train_def log_test_def meters0_def ex_env_def ex_args_warm_def ex_args_def
      ex_store_def upt2 t_add_def t_mul_def zeros_like_def Let_def
      adjust_learning_rate_def schedule_lr_def set_group_lr_def)

text \<open>
  The store with a rank-2 parameter at address 0 and a rank-1 parameter at address 1,
  the rates of step 5, and a run of one epoch with warmup.
\<close>

theorem parameter_groups_order_witness:
  "build_parameters ex_store [0, 1] = [[0], [1]] \<and>
   1 \<le> ndim (ex_store 0) \<and> 1 \<le> ndim (ex_store 1) \<and> 1 < ndim (ex_store 0) \<and>
   0 \<in> set (build_parameters ex_store [0, 1] ! 0) \<and>
   map params (param_groups ex_opt) = build_parameters ex_store [0, 1] \<and>
   adjust_learning_rate ex_args ex_opt 1 5 = Inr ex_opt_5 \<and>
   map params (param_groups ex_opt_5) = [[0], [1]] \<and>
   lr (param_groups ex_opt_5 ! 0) = 1 / 2 * learning_rate_weights ex_args \<and>
   lr (param_groups ex_opt_5 ! 1) = 1 / 2 * learning_rate_biases ex_args \<and>
   warm ex_args_warm \<and>
   main_worker ex_env 0 ex_args_warm ex_store
     = Inr (projr (main_worker ex_env 0 ex_args_warm ex_store)) \<and>
   model_parameters ex_env = [0, 1] \<and>
   map params (param_groups (opt (projr (main_worker ex_env 0 ex_args_warm ex_store))))
     = [[0], [1]]"
proof -
  have bp: "build_parameters ex_store [0, 1] = [[0], [1]]"
    by (simp add: build_parameters_def ex_store_def)
  have nd: "1 \<le> ndim (ex_store 0)" "1 \<le> ndim (ex_store 1)" "1 < ndim (ex_store 0)"
    by (simp_all add: ex_store_def)
  then have all: "\<forall>p\<in>set [0, 1]. 1 \<le> ndim (ex_store p)" by simp
  have mp: "map params (param_groups ex_opt) = build_parameters ex_store [0, 1]"
    by (simp add: build_parameters_def ex_store_def ex_groups)
  have adj: "adjust_learning_rate ex_args ex_opt 1 5 = Inr ex_opt_5"
    by (simp add: ex_args_def ex_opt_5_def ex_groups adjust_learning_rate_def
        schedule_lr_def set_group_lr_def)
  have w: "warm ex_args_warm" by (simp add: ex_args_warm_def ex_args_def)
  have mpar: "model_parameters ex_env = [0, 1]" by (simp add: ex_env_def)
  note T = parameter_groups_order [where h = ex_store and ps = "[0, 1]" and optim = ex_opt
      and a = ex_args and n = 1 and step = 5 and optim' = ex_opt_5 and aw = ex_args_warm
      and env = ex_env and gpu = 0
      and s = "projr (main_worker ex_env 0 ex_args_warm ex_store)"]
  from T all nd(3) have m0: "0 \<in> set (build_parameters ex_store [0, 1] ! 0)"
    by (metis list.set_intros(1))
  from T mp adj have "map params (param_groups ex_opt_5) = build_parameters ex_store [0, 1]"
    by blast
  with bp have g5: "map params (param_groups ex_opt_5) = [[0], [1]]" by simp
  from T w main_worker_warm_run
  have "map params (param_groups (opt (projr (main_worker ex_env 0 ex_args_warm ex_store))))
     = build_parameters ex_store (model_parameters ex_env)" by blast
  with mpar bp
  have run: "map params (param_groups (opt (projr (main_worker ex_env 0 ex_args_warm ex_store))))
     = [[0], [1]]" by simp
  have lrs: "lr (param_groups ex_opt_5 ! 0) = 1 / 2 * learning_rate_weights ex_args"
    "lr (param_groups ex_opt_5 ! 1) = 1 / 2 * learning_rate_biases ex_args"
    by (simp_all add: ex_opt_5_def ex_args_def)
  from bp nd m0 mp adj g5 lrs w main_worker_warm_run mpar run show ?thesis by blast
qed

subsection \<open>The epoch metrics\<close>

text \<open>
  On the coordinator, the training entry of epoch \<open>e\<close> is the accumulated loss divided
  by \<open>(e + 1) * len(train_loader)\<close>, while the evaluation entry is the accumulated loss
  divided by \<open>len(test_loader)\<close>.
\<close>

lemma train_step_meters:
  assumes "train_step env a sm sb = Inr sm'"
  shows "m_batch_count (snd sm') = fst sb \<and> the_log (fst sm') = the_log (fst sm)"
proof -
  from assms obtain s1 where s1: "w_schedule env a (fst sb) (fst sm) = Inr s1"
    and s': "fst sm' = w_step (w_backward env (snd sb) (w_zero_grad env
                (w_criterion (w_forward s1))))"
    and m': "snd sm' = (if rank a = 0
               then accumulate env (heap (w_criterion (w_forward s1))) (snd sb)
                      ((snd sm)\<lparr>m_batch_count := fst sb\<rparr>)
               else (snd sm)\<lparr>m_batch_count := fst sb\<rparr>)"
    by (auto simp: train_step_def Let_def split: sum.splits)
  from w_schedule_Inr[OF s1] s' have "the_log (fst sm') = the_log (fst sm)"
    by (simp add: w_step_def w_backward_def w_zero_grad_def w_criterion_def w_forward_def
        Let_def)
  moreover from m' have "m_batch_count (snd sm') = fst sb"
    by (simp add: accumulate_def)
  ultimately show ?thesis by simp
qed

lemma fold_train_step_meters:
  assumes "fold_err (train_step env a) sm (enumerate k xs) = Inr sm'"
  shows "m_batch_count (snd sm') = (if xs = [] then m_batch_count (snd sm) else k + length xs - 1)
         \<and> the_log (fst sm') = the_log (fst sm)"
  using assms
proof (induction xs arbitrary: k sm)
  case Nil
  then show ?case by simp
next
  case (Cons x xs)
  then obtain sm1 where 1: "train_step env a sm (k, x) = Inr sm1"
    and r: "fold_err (train_step env a) sm1 (enumerate (Suc k) xs) = Inr sm'"
    by (auto split: sum.splits)
  from train_step_meters[OF 1] Cons.IH[OF r] show ?case by (cases xs) auto
qed

lemma fold_eval_step_log: "the_log (fst (fold (eval_step env) xs sm)) = the_log (fst sm)"
  by (induction xs arbitrary: sm)
     (simp_all add: eval_step_def w_criterion_def w_forward_def Let_def)

lemma run_epoch_train_loss_divisor:
  assumes "rank a = 0" "0 < len (train_loader env)" "run_epoch env a s epoch = Inr s'"
  shows "\<exists>sm. fold_err (train_step env a) (s, meters0)
               (enumerate_loader (train_loader env) epoch (epoch * len (train_loader env)))
             = Inr sm \<and>
           train_loss (the_log s') = train_loss (the_log s) @
             [m_loss (snd sm) / real ((epoch + 1) * len (train_loader env))]"
proof -
  let ?n = "len (train_loader env)"
  from assms(1,3) obtain sm s1 where
    f: "fold_err (train_step env a) (s, meters0)
          (enumerate_loader (train_loader env) epoch (epoch * ?n)) = Inr sm"
    and lt: "log_train (snd sm) (fst sm) = Inr s1"
    and ev: "evaluate env epoch s1 = Inr s'"
    by (auto simp: run_epoch_def Let_def split: sum.splits)
  from f assms(2) fold_train_step_meters[of env a "(s, meters0)" "epoch * ?n"
      "map (batch (train_loader env) epoch) [0..<?n]" sm]
  have bc: "m_batch_count (snd sm) = epoch * ?n + ?n - 1"
    and lg: "the_log (fst sm) = the_log s"
    by (auto simp: enumerate_loader_def)
  from bc assms(2) have d: "m_batch_count (snd sm) + 1 = (epoch + 1) * ?n" by simp
  from lt lg have "train_loss (the_log s1) = train_loss (the_log s) @
             [m_loss (snd sm) / real (m_batch_count (snd sm) + 1)]"
    by (auto simp: log_train_def Let_def split: if_splits)
  then have 1: "train_loss (the_log s1) = train_loss (the_log s) @
             [m_loss (snd sm) / real ((epoch + 1) * ?n)]"
    by (simp only: d)
  from ev have 2: "train_loss (the_log s') = train_loss (the_log s1)"
    using fold_eval_step_log[of env _ "(s1, meters0)"]
    by (auto simp: evaluate_def log_test_def Let_def split: if_splits)
  from f 1 2 show ?thesis by auto
qed


lemma fold_eval_step_count:
  "m_batch_count (snd (fold (eval_step env) (enumerate k xs) sm))
     = (if xs = [] then m_batch_count (snd sm) else k + length xs - 1)"
proof (induction xs arbitrary: k sm)
  case Nil
  then show ?case by simp
next
  case (Cons x xs)
  have "m_batch_count (snd (eval_step env (k, x) sm)) = k"
    by (simp add: eval_step_def accumulate_def Let_def)
  with Cons.IH[of "Suc k" "eval_step env (k, x) sm"] show ?case by (cases xs) auto
qed

lemma evaluate_test_loss_divisor:
  assumes "0 < len (test_loader env)" "evaluate env epoch s = Inr s'"
  shows "test_loss (the_log s') = test_loss (the_log s) @
           [m_loss (snd (fold (eval_step env) (enumerate_loader (test_loader env) epoch 0)
                          (s, meters0)))
            / real (len (test_loader env))]"
proof -
  let ?sm = "fold (eval_step env) (enumerate_loader (test_loader env) epoch 0) (s, meters0)"
  from assms(1) fold_eval_step_count[of env 0
      "map (batch (test_loader env) epoch) [0..<len (test_loader env)]" "(s, meters0)"]
  have "m_batch_count (snd ?sm) + 1 = len (test_loader env)"
    by (simp add: enumerate_loader_def)
  moreover from assms(2) fold_eval_step_log[of env _ "(s, meters0)"]
  have "test_loss (the_log s') = test_loss (the_log s) @
           [m_loss (snd ?sm) / real (m_batch_count (snd ?sm) + 1)]"
    by (auto simp: evaluate_def log_test_def Let_def split: if_splits)
  ultimately show ?thesis by (simp only:)
qed

text \<open>
  Claim C8 on a run of two epochs of two training batches, every batch with loss 1: the
  mean training loss of either epoch is 1.  The log has \<open>1\<close> for epoch 0 and \<open>1 / 2\<close> for
  epoch 1: the training loop numbers its batches from \<open>epoch * len(train_loader)\<close>, so at
  the end of epoch 1 \<open>batch_count + 1\<close> is 4, not 2.  The evaluation loop numbers from 0
  and records the mean 1 in both epochs.
\<close>

theorem main_worker_train_loss_divisor:
  "len (train_loader ex_env) = 2 \<and> loss_item ex_env = (\<lambda>h b. 1) \<and>
   rank ex_args_run = 0 \<and> epochs ex_args_run = 2 \<and>
   (case main_worker ex_env 0 ex_args_run ex_store of
      Inl e \<Rightarrow> None | Inr s \<Rightarrow> Some (the_log s))
    = Some \<lparr>train_loss = [1, 1 / 2], train_acc = [50, 50],
             test_loss = [1, 1], test_acc = [50, 50]\<rparr>"
  by (simp add: main_worker_def build_parameters_def LARS_init_def run_epoch_def
      enumerate_loader_def train_step_def w_schedule_def w_forward_def w_criterion_def
      w_zero_grad_def w_backward_def w_step_def LARS_step_def step_group_def step_param_def
      decay_stage_def adapt_stage_def momentum_stage_def exclude_bias_and_norm_def
      zero_grad_def zero_grad_param_def accumulate_def eval_step_def evaluate_def
      log_train_def log_test_def meters0_def ex_env_def ex_args_run_def ex_args_def
      ex_store_def upt2 t_add_def t_mul_def zeros_like_def Let_def)

end
